theory Spec2Isabelle
  imports Main
begin

section \<open>The pull-request updater: a shallow embedding of \<open>pull-updater.go\<close>\<close>

text \<open>
  The program is a GitHub App with one webhook handler,
  \<open>PRBranchUpdateHandler.Handle\<close>.  On a push to the default branch it lists the
  open pull requests, filters them by the configured labels, compares each head with its
  base and asks GitHub to update the branches that are behind.

  Go strings are byte strings, so they are modelled by \<^typ>\<open>string\<close>; Go's \<open>int\<close>
  and \<open>int64\<close> values are only compared here, never computed with, and are modelled by
  \<^typ>\<open>int\<close>.  A Go pointer that may be \<open>nil\<close> is an \<^typ>\<open>'a option\<close>, and the
  \<open>Get...\<close> accessors of go-github return the zero value on \<open>nil\<close>.
\<close>

subsection \<open>Errors\<close>

text \<open>
  A Go \<open>error\<close> is represented by the text that \<open>err.Error()\<close> returns; a \<open>nil\<close>
  error is \<^term>\<open>None\<close> of type \<open>error option\<close>.
\<close>

datatype error = Error (Error_msg: string)

definition Wrap :: "error \<Rightarrow> string \<Rightarrow> error" where
  \<comment> \<open>\<open>errors.Wrap(err, message)\<close>: the message, a colon, the cause.\<close>
  "Wrap err message = Error (message @ '': '' @ Error_msg err)"

subsection \<open>The go-github data the handler reads\<close>

record Label =
  Label_Name :: "string option"

record PullRequestBranch =
  Branch_Ref :: "string option"

record PullRequest =
  PR_Number :: "int option"
  PR_Head :: "PullRequestBranch option"
  PR_Base :: "PullRequestBranch option"
  PR_Labels :: "Label option list"

record User =
  User_Login :: "string option"

record PushEventRepository =
  Repo_Name :: "string option"
  Repo_Owner :: "User option"
  Repo_DefaultBranch :: "string option"

record Installation =
  Installation_ID :: "int option"

record PushEvent =
  Push_Ref :: "string option"
  Push_Repo :: "PushEventRepository option"
  Push_Installation :: "Installation option"

record CommitsComparison =
  AheadBy :: "int option"
  BehindBy :: "int option"

record PullRequestBranchUpdateResponse =
  Response_Message :: "string option"
  Response_URL :: "string option"

definition Label_GetName :: "Label option \<Rightarrow> string" where
  "Label_GetName l =
     (case l of None \<Rightarrow> []
      | Some x \<Rightarrow> (case Label_Name x of None \<Rightarrow> [] | Some n \<Rightarrow> n))"

definition Branch_GetRef :: "PullRequestBranch option \<Rightarrow> string" where
  "Branch_GetRef b =
     (case b of None \<Rightarrow> []
      | Some x \<Rightarrow> (case Branch_Ref x of None \<Rightarrow> [] | Some r \<Rightarrow> r))"

definition PR_GetNumber :: "PullRequest option \<Rightarrow> int" where
  "PR_GetNumber p =
     (case p of None \<Rightarrow> 0
      | Some x \<Rightarrow> (case PR_Number x of None \<Rightarrow> 0 | Some n \<Rightarrow> n))"

definition PR_GetHead :: "PullRequest option \<Rightarrow> PullRequestBranch option" where
  "PR_GetHead p = (case p of None \<Rightarrow> None | Some x \<Rightarrow> PR_Head x)"

definition PR_GetBase :: "PullRequest option \<Rightarrow> PullRequestBranch option" where
  "PR_GetBase p = (case p of None \<Rightarrow> None | Some x \<Rightarrow> PR_Base x)"

definition User_GetLogin :: "User option \<Rightarrow> string" where
  "User_GetLogin u =
     (case u of None \<Rightarrow> []
      | Some x \<Rightarrow> (case User_Login x of None \<Rightarrow> [] | Some n \<Rightarrow> n))"

definition Repo_GetName :: "PushEventRepository option \<Rightarrow> string" where
  "Repo_GetName r =
     (case r of None \<Rightarrow> []
      | Some x \<Rightarrow> (case Repo_Name x of None \<Rightarrow> [] | Some n \<Rightarrow> n))"

definition Repo_GetOwner :: "PushEventRepository option \<Rightarrow> User option" where
  "Repo_GetOwner r = (case r of None \<Rightarrow> None | Some x \<Rightarrow> Repo_Owner x)"

definition Repo_GetDefaultBranch :: "PushEventRepository option \<Rightarrow> string" where
  "Repo_GetDefaultBranch r =
     (case r of None \<Rightarrow> []
      | Some x \<Rightarrow> (case Repo_DefaultBranch x of None \<Rightarrow> [] | Some n \<Rightarrow> n))"

definition Push_GetRef :: "PushEvent option \<Rightarrow> string" where
  "Push_GetRef e =
     (case e of None \<Rightarrow> []
      | Some x \<Rightarrow> (case Push_Ref x of None \<Rightarrow> [] | Some r \<Rightarrow> r))"

definition Push_GetRepo :: "PushEvent option \<Rightarrow> PushEventRepository option" where
  "Push_GetRepo e = (case e of None \<Rightarrow> None | Some x \<Rightarrow> Push_Repo x)"

definition Push_GetInstallation :: "PushEvent option \<Rightarrow> Installation option" where
  "Push_GetInstallation e = (case e of None \<Rightarrow> None | Some x \<Rightarrow> Push_Installation x)"

definition Installation_GetID :: "Installation option \<Rightarrow> int" where
  "Installation_GetID i =
     (case i of None \<Rightarrow> 0
      | Some x \<Rightarrow> (case Installation_ID x of None \<Rightarrow> 0 | Some n \<Rightarrow> n))"

definition GetInstallationIDFromEvent :: "PushEvent option \<Rightarrow> int" where
  \<comment> \<open>go-githubapp: \<open>event.GetInstallation().GetID()\<close>.\<close>
  "GetInstallationIDFromEvent e = Installation_GetID (Push_GetInstallation e)"

definition GetBehindBy :: "CommitsComparison option \<Rightarrow> int" where
  "GetBehindBy c =
     (case c of None \<Rightarrow> 0
      | Some x \<Rightarrow> (case BehindBy x of None \<Rightarrow> 0 | Some n \<Rightarrow> n))"

definition GetMessage :: "PullRequestBranchUpdateResponse option \<Rightarrow> string" where
  "GetMessage r =
     (case r of None \<Rightarrow> []
      | Some x \<Rightarrow> (case Response_Message x of None \<Rightarrow> [] | Some m \<Rightarrow> m))"

subsection \<open>What the handler takes from the Go standard library\<close>

text \<open>
  \<open>json.Unmarshal\<close> and the Unicode tables behind \<open>strings.ToLower\<close> are not code
  of this repository; they are parameters of the model.  \<open>json_Unmarshal\<close> decodes a
  payload into a push event (the literal \<open>null\<close> decodes to a \<open>nil\<close> event) or fails.
  \<open>strings_Map_ToLower\<close> stands for \<open>strings.Map(unicode.ToLower, s)\<close>, which
  \<open>strings.ToLower\<close> calls on a string with a byte outside ASCII.  On a string of
  ASCII bytes \<open>strings.ToLower\<close> adds \<open>'a' - 'A'\<close> to every byte between \<open>'A'\<close> and
  \<open>'Z'\<close>; that path is modelled in full.
\<close>

record stdlib =
  json_Unmarshal :: "string \<Rightarrow> error + PushEvent option"
  strings_Map_ToLower :: "string \<Rightarrow> string"

definition isASCII :: "char \<Rightarrow> bool" where
  "isASCII c \<longleftrightarrow> (of_char c :: nat) < 128"

definition isUpper :: "char \<Rightarrow> bool" where
  \<comment> \<open>\<open>'A' <= c && c <= 'Z'\<close>\<close>
  "isUpper c \<longleftrightarrow> 65 \<le> (of_char c :: nat) \<and> (of_char c :: nat) \<le> 90"

definition lowerByte :: "char \<Rightarrow> char" where
  \<comment> \<open>\<open>c += 'a' - 'A'\<close> on an upper-case byte\<close>
  "lowerByte c = (if isUpper c then char_of ((of_char c :: nat) + 32) else c)"

definition ToLower :: "stdlib \<Rightarrow> string \<Rightarrow> string" where
  "ToLower lib s =
     (if list_all isASCII s then map lowerByte s else strings_Map_ToLower lib s)"

subsection \<open>The label filter\<close>

fun contains :: "stdlib \<Rightarrow> Label option list \<Rightarrow> string \<Rightarrow> bool" where
  "contains lib [] label = False"
| "contains lib (prLabel # prLabels) label =
     (if ToLower lib (Label_GetName prLabel) = label then True
      else contains lib prLabels label)"

fun hasAllLabels :: "stdlib \<Rightarrow> string list \<Rightarrow> Label option list \<Rightarrow> bool" where
  "hasAllLabels lib [] prLabels = True"
| "hasAllLabels lib (label # labels) prLabels =
     (if \<not> contains lib prLabels label then False
      else hasAllLabels lib labels prLabels)"

subsection \<open>The installation client and the handler\<close>

text \<open>
  The GitHub API is the outside world of the handler.  An operation of the installation
  client takes its arguments and the state \<open>'w\<close> of the world, and returns what
  go-github returns (the value and the error; the \<open>*Response\<close> is discarded by the
  handler everywhere) together with the new state.  Nothing is assumed about the
  operations: they may answer differently on every call.  The context argument is only
  passed through by the handler and is left out.
\<close>

record 'w Client =
  PullRequests_List ::
    "string \<Rightarrow> string \<Rightarrow> string \<Rightarrow> 'w \<Rightarrow> (PullRequest option list \<times> error option) \<times> 'w"
  Repositories_CompareCommits ::
    "string \<Rightarrow> string \<Rightarrow> string \<Rightarrow> string \<Rightarrow> 'w \<Rightarrow>
       (CommitsComparison option \<times> error option) \<times> 'w"
  PullRequests_UpdateBranch ::
    "string \<Rightarrow> string \<Rightarrow> int \<Rightarrow> 'w \<Rightarrow>
       (PullRequestBranchUpdateResponse option \<times> error option) \<times> 'w"
  Issues_CreateComment ::
    "string \<Rightarrow> string \<Rightarrow> int \<Rightarrow> string \<Rightarrow> 'w \<Rightarrow> error option \<times> 'w"

record 'w PRBranchUpdateHandler =
  NewInstallationClient :: "int \<Rightarrow> error + 'w Client"
  preamble :: string
  labels :: "string list"

text \<open>
  The calls the handler issues through the client are recorded in order: the listing
  (owner, repository, state filter), the comparison (owner, repository, base, head), the
  branch update (owner, repository, number) and the comment (owner, repository, number,
  body).  Log lines are written to standard output only and are not recorded.
\<close>

datatype call =
    is_ListCall: ListCall string string string
  | is_CompareCall: CompareCall string string string string
  | is_UpdateCall: UpdateCall string string int
  | is_CommentCall: CommentCall string string int string

text \<open>
  One turn of the loop over the pull requests either goes on to the next pull request
  (\<open>continue\<close>, or the end of the body), or leaves \<open>Handle\<close> with \<open>return err\<close>, or
  panics: \<open>pr.Labels\<close> is a field read through the pointer \<open>pr\<close>, the one access of
  the body that is not \<open>nil\<close>-safe.
\<close>

datatype outcome = Next | Return error | Panic

datatype result = Returned "error option" | Panicked

definition process_pr ::
  "stdlib \<Rightarrow> 'w PRBranchUpdateHandler \<Rightarrow> 'w Client \<Rightarrow> string \<Rightarrow> string \<Rightarrow>
     PullRequest option \<Rightarrow> 'w \<Rightarrow> call list \<times> outcome \<times> 'w" where
  "process_pr lib h client repoOwner repoName pr w =
     (let prNum = PR_GetNumber pr;
          headRef = Branch_GetRef (PR_GetHead pr);
          baseRef = Branch_GetRef (PR_GetBase pr)
      in case pr of
           None \<Rightarrow> ([], Panic, w)
         | Some p \<Rightarrow>
            (let prLabels = PR_Labels p
             in if 0 < length (labels h) \<and> \<not> hasAllLabels lib (labels h) prLabels
                then ([], Next, w)
                else
                  (case Repositories_CompareCommits client repoOwner repoName baseRef headRef w of
                     ((commitComparison, _), w1) \<Rightarrow>
                       if GetBehindBy commitComparison \<ge> 1 then
                         (case PullRequests_UpdateBranch client repoOwner repoName prNum w1 of
                            ((updateResponse, None), w2) \<Rightarrow>
                              ([CompareCall repoOwner repoName baseRef headRef,
                                UpdateCall repoOwner repoName prNum], Next, w2)
                          | ((updateResponse, Some err), w2) \<Rightarrow>
                              if Error_msg err = ''job scheduled on GitHub side; try again later''
                              then
                                (let msg = preamble h @ ''\<newline>\<newline>'' @
                                             GetMessage updateResponse
                                 in case Issues_CreateComment client repoOwner repoName prNum msg w2 of
                                      (Some err', w3) \<Rightarrow>
                                        ([CompareCall repoOwner repoName baseRef headRef,
                                          UpdateCall repoOwner repoName prNum,
                                          CommentCall repoOwner repoName prNum msg],
                                         Return err', w3)
                                    | (None, w3) \<Rightarrow>
                                        ([CompareCall repoOwner repoName baseRef headRef,
                                          UpdateCall repoOwner repoName prNum,
                                          CommentCall repoOwner repoName prNum msg],
                                         Next, w3))
                              else
                                (let msg = ''Failed to update pull request. Error: '' @
                                             Error_msg err
                                 in case Issues_CreateComment client repoOwner repoName prNum msg w2 of
                                      (Some err', w3) \<Rightarrow>
                                        ([CompareCall repoOwner repoName baseRef headRef,
                                          UpdateCall repoOwner repoName prNum,
                                          CommentCall repoOwner repoName prNum msg],
                                         Return err', w3)
                                    | (None, w3) \<Rightarrow>
                                        ([CompareCall repoOwner repoName baseRef headRef,
                                          UpdateCall repoOwner repoName prNum,
                                          CommentCall repoOwner repoName prNum msg],
                                         Next, w3)))
                       else ([CompareCall repoOwner repoName baseRef headRef], Next, w1))))"

definition after_calls :: "call list \<Rightarrow> call list \<times> result \<times> 'w \<Rightarrow> call list \<times> result \<times> 'w" where
  \<comment> \<open>the calls of the turns already made, put in front of the rest of the run\<close>
  "after_calls cs r = (case r of (cs', res, w) \<Rightarrow> (cs @ cs', res, w))"

fun process_prs ::
  "stdlib \<Rightarrow> 'w PRBranchUpdateHandler \<Rightarrow> 'w Client \<Rightarrow> string \<Rightarrow> string \<Rightarrow>
     PullRequest option list \<Rightarrow> 'w \<Rightarrow> call list \<times> result \<times> 'w" where
  "process_prs lib h client repoOwner repoName [] w = ([], Returned None, w)"
| "process_prs lib h client repoOwner repoName (pr # pullRequests) w =
     (case process_pr lib h client repoOwner repoName pr w of
        (cs, Next, w') \<Rightarrow>
          after_calls cs (process_prs lib h client repoOwner repoName pullRequests w')
      | (cs, Return err, w') \<Rightarrow> (cs, Returned (Some err), w')
      | (cs, Panic, w') \<Rightarrow> (cs, Panicked, w'))"

text \<open>
  \<open>Handle\<close> itself.  The event type and the delivery identifier are not read by the
  function and are left out.  The result is the list of client calls in the order they
  were issued, what the function returned, and the state of the world afterwards.
\<close>

definition Handle ::
  "stdlib \<Rightarrow> 'w PRBranchUpdateHandler \<Rightarrow> string \<Rightarrow> 'w \<Rightarrow> call list \<times> result \<times> 'w" where
  "Handle lib h payload w =
     (case json_Unmarshal lib payload of
        Inl err \<Rightarrow>
          ([], Returned (Some (Wrap err ''failed to parse push event payload'')), w)
      | Inr pushEvent \<Rightarrow>
          (let installationID = GetInstallationIDFromEvent pushEvent
           in case NewInstallationClient h installationID of
                Inl err \<Rightarrow> ([], Returned (Some err), w)
              | Inr client \<Rightarrow>
                  (let repo = Push_GetRepo pushEvent;
                       repoOwner = User_GetLogin (Repo_GetOwner repo);
                       repoName = Repo_GetName repo;
                       repoDefaultBranch = Repo_GetDefaultBranch repo
                   in if Push_GetRef pushEvent \<noteq> ''refs/heads/'' @ repoDefaultBranch
                      then ([], Returned None, w)
                      else
                        (case PullRequests_List client repoOwner repoName ''open'' w of
                           ((pullRequests, Some err), w1) \<Rightarrow>
                             ([ListCall repoOwner repoName ''open''], Returned (Some err), w1)
                         | ((pullRequests, None), w1) \<Rightarrow>
                             after_calls [ListCall repoOwner repoName ''open'']
                               (process_prs lib h client repoOwner repoName pullRequests w1)))))"

subsection \<open>Concrete runs\<close>

text \<open>
  The data of the runs the theorems are tried on: the repository \<open>acme/widgets\<close> with
  default branch \<open>main\<close>, a push to \<open>main\<close> and a push to a feature branch, and a
  client over a world that counts the calls made so far.  The client lists the given
  pull requests, answers a comparison by the head ref (a head that is not in the table
  has no comparison: \<open>nil\<close> and an error, as go-github returns on a failed request),
  fails the update of the pull requests in the second table with the response and
  error given there (go-github returns no response with an error, so the runs below
  give \<open>None\<close>), and fails the comments on the pull requests in the third.  All
  labels of the runs are ASCII, so the Unicode parameter of \<open>ToLower\<close> is never
  consulted there; it is set to the byte-wise lowering.
\<close>

definition push_main :: PushEvent where
  "push_main =
     \<lparr>Push_Ref = Some ''refs/heads/main'',
      Push_Repo = Some \<lparr>Repo_Name = Some ''widgets'',
                        Repo_Owner = Some \<lparr>User_Login = Some ''acme''\<rparr>,
                        Repo_DefaultBranch = Some ''main''\<rparr>,
      Push_Installation = Some \<lparr>Installation_ID = Some 123456\<rparr>\<rparr>"

definition push_feature :: PushEvent where
  "push_feature = push_main\<lparr>Push_Ref := Some ''refs/heads/feature-branch''\<rparr>"

definition test_lib :: stdlib where
  "test_lib =
     \<lparr>json_Unmarshal = (\<lambda>payload.
         if payload = ''push to main'' then Inr (Some push_main)
         else if payload = ''push to feature-branch'' then Inr (Some push_feature)
         else Inl (Error ''unexpected end of JSON input'')),
      strings_Map_ToLower = map lowerByte\<rparr>"

definition mk_pr :: "int \<Rightarrow> string \<Rightarrow> string list \<Rightarrow> PullRequest" where
  "mk_pr number head names =
     \<lparr>PR_Number = Some number,
      PR_Head = Some \<lparr>Branch_Ref = Some head\<rparr>,
      PR_Base = Some \<lparr>Branch_Ref = Some ''main''\<rparr>,
      PR_Labels = map (\<lambda>n. Some \<lparr>Label_Name = Some n\<rparr>) names\<rparr>"

definition test_client ::
  "PullRequest option list \<Rightarrow> (string \<times> int) list \<Rightarrow>
     (int \<times> PullRequestBranchUpdateResponse option \<times> error) list \<Rightarrow>
     (int \<times> error) list \<Rightarrow> nat Client" where
  "test_client prs behind failing_updates failing_comments =
     \<lparr>PullRequests_List = (\<lambda>owner repo state w. ((prs, None), Suc w)),
      Repositories_CompareCommits = (\<lambda>owner repo base head w.
         case map_of behind head of
           None \<Rightarrow> ((None, Some (Error ''404 Not Found'')), Suc w)
         | Some n \<Rightarrow> ((Some \<lparr>AheadBy = Some 1, BehindBy = Some n\<rparr>, None), Suc w)),
      PullRequests_UpdateBranch = (\<lambda>owner repo number w.
         case map_of failing_updates number of
           None \<Rightarrow>
             ((Some \<lparr>Response_Message = Some ''Updating pull request branch.'',
                     Response_URL = None\<rparr>, None), Suc w)
         | Some (response, err) \<Rightarrow> ((response, Some err), Suc w)),
      Issues_CreateComment = (\<lambda>owner repo number body w.
         (map_of failing_comments number, Suc w))\<rparr>"

definition test_handler :: "string list \<Rightarrow> nat Client \<Rightarrow> nat PRBranchUpdateHandler" where
  "test_handler required client =
     \<lparr>NewInstallationClient = (\<lambda>installationID. Inr client),
      preamble = ''Auto-update:'',
      labels = required\<rparr>"

definition broken_handler :: "nat PRBranchUpdateHandler" where
  \<comment> \<open>a client creator that cannot build a client, for instance on a malformed private key\<close>
  "broken_handler =
     \<lparr>NewInstallationClient = (\<lambda>installationID.
         Inl (Error ''could not parse private key'')),
      preamble = ''Auto-update:'',
      labels = []\<rparr>"

definition scheduled :: error where
  "scheduled = Error ''job scheduled on GitHub side; try again later''"

definition accepted :: "PullRequestBranchUpdateResponse option" where
  "accepted = Some \<lparr>Response_Message = Some ''Updating pull request branch.'',
                    Response_URL = None\<rparr>"

section \<open>Properties\<close>

subsection \<open>Unfolding sets\<close>

lemmas getters =
  Label_GetName_def Branch_GetRef_def PR_GetNumber_def PR_GetHead_def PR_GetBase_def
  User_GetLogin_def Repo_GetName_def Repo_GetOwner_def Repo_GetDefaultBranch_def
  Push_GetRef_def Push_GetRepo_def Push_GetInstallation_def Installation_GetID_def
  GetInstallationIDFromEvent_def GetBehindBy_def GetMessage_def

lemmas lowering = ToLower_def isASCII_def isUpper_def lowerByte_def char_of_eq_iff

lemmas runs =
  test_lib_def push_main_def push_feature_def mk_pr_def test_client_def test_handler_def
  broken_handler_def scheduled_def accepted_def Handle_def process_pr_def after_calls_def
  Let_def Wrap_def

subsection \<open>The label filter\<close>

lemma lowerByte_not_upper: "\<not> isUpper (lowerByte c)"
  by (auto simp: lowerByte_def isUpper_def)

lemma ToLower_not_upper:
  assumes "\<forall>s. \<forall>c\<in>set (strings_Map_ToLower lib s). \<not> isUpper c"
  shows "\<forall>c\<in>set (ToLower lib s). \<not> isUpper c"
  using assms by (auto simp: ToLower_def lowerByte_not_upper)

lemma contains_iff:
  "contains lib prLabels label \<longleftrightarrow>
     label \<in> set (map (\<lambda>l. ToLower lib (Label_GetName l)) prLabels)"
  by (induction prLabels) auto

lemma hasAllLabels_iff:
  "hasAllLabels lib required prLabels \<longleftrightarrow> list_all (contains lib prLabels) required"
  by (induction required) auto

lemma hasAllLabels_member:
  "label \<in> set required \<Longrightarrow> \<not> contains lib prLabels label \<Longrightarrow>
     \<not> hasAllLabels lib required prLabels"
  by (auto simp: hasAllLabels_iff list_all_iff)

subsection \<open>One turn of the loop, branch by branch\<close>

lemma process_pr_skip:
  assumes "\<not> hasAllLabels lib (labels h) (PR_Labels p)"
  shows "process_pr lib h client repoOwner repoName (Some p) w = ([], Next, w)"
proof -
  from assms have "labels h \<noteq> []" by (cases "labels h") auto
  with assms show ?thesis by (simp add: process_pr_def Let_def)
qed

lemma process_pr_up_to_date:
  assumes "labels h = [] \<or> hasAllLabels lib (labels h) (PR_Labels p)"
    and "Repositories_CompareCommits client repoOwner repoName
           (Branch_GetRef (PR_Base p)) (Branch_GetRef (PR_Head p)) w =
           ((commitComparison, cerr), w1)"
    and "GetBehindBy commitComparison < 1"
  shows "process_pr lib h client repoOwner repoName (Some p) w =
           ([CompareCall repoOwner repoName (Branch_GetRef (PR_Base p))
               (Branch_GetRef (PR_Head p))], Next, w1)"
  using assms by (auto simp: process_pr_def Let_def PR_GetHead_def PR_GetBase_def)

lemma process_pr_updated:
  assumes "labels h = [] \<or> hasAllLabels lib (labels h) (PR_Labels p)"
    and "Repositories_CompareCommits client repoOwner repoName
           (Branch_GetRef (PR_Base p)) (Branch_GetRef (PR_Head p)) w =
           ((commitComparison, cerr), w1)"
    and "1 \<le> GetBehindBy commitComparison"
    and "PullRequests_UpdateBranch client repoOwner repoName (PR_GetNumber (Some p)) w1 =
           ((updateResponse, None), w2)"
  shows "process_pr lib h client repoOwner repoName (Some p) w =
           ([CompareCall repoOwner repoName (Branch_GetRef (PR_Base p))
               (Branch_GetRef (PR_Head p)),
             UpdateCall repoOwner repoName (PR_GetNumber (Some p))], Next, w2)"
  using assms by (auto simp: process_pr_def Let_def PR_GetHead_def PR_GetBase_def)

lemma process_pr_scheduled:
  assumes "labels h = [] \<or> hasAllLabels lib (labels h) (PR_Labels p)"
    and "Repositories_CompareCommits client repoOwner repoName
           (Branch_GetRef (PR_Base p)) (Branch_GetRef (PR_Head p)) w =
           ((commitComparison, cerr), w1)"
    and "1 \<le> GetBehindBy commitComparison"
    and "PullRequests_UpdateBranch client repoOwner repoName (PR_GetNumber (Some p)) w1 =
           ((updateResponse, Some err), w2)"
    and "Error_msg err = ''job scheduled on GitHub side; try again later''"
    and "Issues_CreateComment client repoOwner repoName (PR_GetNumber (Some p))
           (preamble h @ ''\<newline>\<newline>'' @ GetMessage updateResponse) w2 = (err', w3)"
  shows "process_pr lib h client repoOwner repoName (Some p) w =
           ([CompareCall repoOwner repoName (Branch_GetRef (PR_Base p))
               (Branch_GetRef (PR_Head p)),
             UpdateCall repoOwner repoName (PR_GetNumber (Some p)),
             CommentCall repoOwner repoName (PR_GetNumber (Some p))
               (preamble h @ ''\<newline>\<newline>'' @ GetMessage updateResponse)],
            (case err' of None \<Rightarrow> Next | Some e \<Rightarrow> Return e), w3)"
  using assms
  by (auto simp: process_pr_def Let_def PR_GetHead_def PR_GetBase_def split: option.splits)

lemma process_pr_failed:
  assumes "labels h = [] \<or> hasAllLabels lib (labels h) (PR_Labels p)"
    and "Repositories_CompareCommits client repoOwner repoName
           (Branch_GetRef (PR_Base p)) (Branch_GetRef (PR_Head p)) w =
           ((commitComparison, cerr), w1)"
    and "1 \<le> GetBehindBy commitComparison"
    and "PullRequests_UpdateBranch client repoOwner repoName (PR_GetNumber (Some p)) w1 =
           ((updateResponse, Some err), w2)"
    and "Error_msg err \<noteq> ''job scheduled on GitHub side; try again later''"
    and "Issues_CreateComment client repoOwner repoName (PR_GetNumber (Some p))
           (''Failed to update pull request. Error: '' @ Error_msg err) w2 = (err', w3)"
  shows "process_pr lib h client repoOwner repoName (Some p) w =
           ([CompareCall repoOwner repoName (Branch_GetRef (PR_Base p))
               (Branch_GetRef (PR_Head p)),
             UpdateCall repoOwner repoName (PR_GetNumber (Some p)),
             CommentCall repoOwner repoName (PR_GetNumber (Some p))
               (''Failed to update pull request. Error: '' @ Error_msg err)],
            (case err' of None \<Rightarrow> Next | Some e \<Rightarrow> Return e), w3)"
  using assms
  by (auto simp: process_pr_def Let_def PR_GetHead_def PR_GetBase_def split: option.splits)

subsection \<open>The loop and the handler around it\<close>

lemma after_calls_Nil: "after_calls [] r = r"
  by (cases r) (simp add: after_calls_def)

lemma after_calls_append: "after_calls (cs @ cs') r = after_calls cs (after_calls cs' r)"
  by (cases r) (simp add: after_calls_def)

lemma process_prs_append:
  assumes "process_prs lib h client repoOwner repoName before w = (cs, Returned None, w')"
  shows "process_prs lib h client repoOwner repoName (before @ rest) w =
           after_calls cs (process_prs lib h client repoOwner repoName rest w')"
  using assms
proof (induction before arbitrary: w cs)
  case Nil
  then show ?case by (simp add: after_calls_Nil)
next
  case (Cons pr before)
  obtain cs1 out w1 where step: "process_pr lib h client repoOwner repoName pr w = (cs1, out, w1)"
    by (cases "process_pr lib h client repoOwner repoName pr w") auto
  with Cons.prems have out: "out = Next" by (cases out) auto
  obtain cs2 res w2 where
    tail: "process_prs lib h client repoOwner repoName before w1 = (cs2, res, w2)"
    by (cases "process_prs lib h client repoOwner repoName before w1") auto
  from Cons.prems step out tail have "res = Returned None" "w2 = w'" "cs = cs1 @ cs2"
    by (auto simp: after_calls_def)
  with Cons.IH [of w1 cs2] tail step out show ?case
    by (simp add: after_calls_append)
qed

lemma Handle_default_branch:
  assumes "json_Unmarshal lib payload = Inr pushEvent"
    and "NewInstallationClient h (GetInstallationIDFromEvent pushEvent) = Inr client"
    and "Push_GetRef pushEvent = ''refs/heads/'' @ Repo_GetDefaultBranch (Push_GetRepo pushEvent)"
    and "PullRequests_List client (User_GetLogin (Repo_GetOwner (Push_GetRepo pushEvent)))
           (Repo_GetName (Push_GetRepo pushEvent)) ''open'' w = ((pullRequests, None), w1)"
  shows "Handle lib h payload w =
           after_calls [ListCall (User_GetLogin (Repo_GetOwner (Push_GetRepo pushEvent)))
                          (Repo_GetName (Push_GetRepo pushEvent)) ''open'']
             (process_prs lib h client (User_GetLogin (Repo_GetOwner (Push_GetRepo pushEvent)))
                (Repo_GetName (Push_GetRepo pushEvent)) pullRequests w1)"
  using assms by (simp add: Handle_def Let_def)

text \<open>
  The loop arriving at a pull request is what \<open>Handle\<close> does from there on: when
  the push is to the default branch, the listing succeeds, and the pull requests before
  \<open>p\<close> were processed without a \<open>return\<close>, the run of \<open>Handle\<close> is the listing call,
  the calls made for those pull requests, and then the loop from \<open>p\<close> on.
\<close>

lemma Handle_reaches:
  assumes "json_Unmarshal lib payload = Inr pushEvent"
    and "NewInstallationClient h (GetInstallationIDFromEvent pushEvent) = Inr client"
    and "Push_GetRef pushEvent = ''refs/heads/'' @ Repo_GetDefaultBranch (Push_GetRepo pushEvent)"
    and "repoOwner = User_GetLogin (Repo_GetOwner (Push_GetRepo pushEvent))"
    and "repoName = Repo_GetName (Push_GetRepo pushEvent)"
    and "PullRequests_List client repoOwner repoName ''open'' w0 =
           ((before @ Some p # pullRequests, None), w1)"
    and "process_prs lib h client repoOwner repoName before w1 = (cs, Returned None, w)"
  shows "Handle lib h payload w0 =
           after_calls (ListCall repoOwner repoName ''open'' # cs)
             (process_prs lib h client repoOwner repoName (Some p # pullRequests) w)"
proof -
  have "Handle lib h payload w0 =
          after_calls [ListCall repoOwner repoName ''open'']
            (process_prs lib h client repoOwner repoName (before @ Some p # pullRequests) w1)"
    using assms(1-3) assms(6) [unfolded assms(4,5)] unfolding assms(4,5)
    by (rule Handle_default_branch)
  also have "process_prs lib h client repoOwner repoName (before @ Some p # pullRequests) w1 =
          after_calls cs (process_prs lib h client repoOwner repoName (Some p # pullRequests) w)"
    using assms(7) by (rule process_prs_append)
  finally show ?thesis
    by (simp add: after_calls_append [symmetric])
qed


subsection \<open>Claims about the label filter\<close>

text \<open>
  C3.  The claim: label matching ignores letter case, so a required label counts as
  present whenever some label of the pull request equals it up to case.  The code
  lower-cases the pull request's label and compares it with the configured label as it
  is written.  On the labels of the repository's own test \<open>TestHasAllLabels\<close>, where
  the configured labels \<open>Approved to Merge\<close> and \<open>Ready to Merge\<close> are both on the
  pull request letter for letter, \<open>hasAllLabels\<close> answers \<open>false\<close>; the test expects
  \<open>true\<close>.
\<close>

theorem hasAllLabels_fails_repository_test:
  "hasAllLabels lib [''Approved to Merge'', ''Ready to Merge'']
     [Some \<lparr>Label_Name = Some ''Approved to Merge''\<rparr>,
      Some \<lparr>Label_Name = Some ''Ready to Merge''\<rparr>,
      Some \<lparr>Label_Name = Some ''Needs Review''\<rparr>] = False"
  by (simp add: lowering Label_GetName_def)

text \<open>
  The example of the specification does hold: the lower-case required label
  \<open>approved to merge\<close> is found on a pull request labelled \<open>Approved To Merge\<close>.
\<close>

lemma hasAllLabels_lower_case_example:
  "hasAllLabels lib [''approved to merge'']
     [Some \<lparr>Label_Name = Some ''Approved To Merge''\<rparr>] = True"
  by (simp add: lowering Label_GetName_def)

text \<open>
  C10.  \<open>contains\<close> lower-cases the pull request's label names only.  A configured
  label with an upper-case letter is therefore never found, whatever the labels of the
  pull request are, and with such a label configured every pull request of the listing
  is skipped: the loop issues no call at all.  The Unicode tables are a parameter of
  the model; the one fact used about them is that lower-casing a string yields no
  byte between \<open>'A'\<close> and \<open>'Z'\<close>.
\<close>

theorem upper_case_label_never_matches:
  assumes "\<forall>s. \<forall>c\<in>set (strings_Map_ToLower lib s). \<not> isUpper c"
    and "list_ex isUpper label"
  shows "\<not> contains lib prLabels label \<and>
         (label \<in> set (labels h) \<longrightarrow>
            \<not> hasAllLabels lib (labels h) prLabels \<and>
            process_prs lib h client repoOwner repoName (map Some pullRequests) w =
              ([], Returned None, w))"
proof -
  have never: "\<not> contains lib ls label" for ls
  proof
    assume "contains lib ls label"
    then obtain l where "ToLower lib (Label_GetName l) = label"
      by (auto simp: contains_iff)
    with ToLower_not_upper [OF assms(1), of "Label_GetName l"] assms(2)
    show False by (auto simp: list_ex_iff)
  qed
  have loop: "process_prs lib h client repoOwner repoName (map Some pullRequests) w =
                ([], Returned None, w)" if "label \<in> set (labels h)"
  proof (induction pullRequests)
    case Nil
    show ?case by simp
  next
    case (Cons p pullRequests)
    have "\<not> hasAllLabels lib (labels h) (PR_Labels p)"
      using that never by (rule hasAllLabels_member)
    then have "process_pr lib h client repoOwner repoName (Some p) w = ([], Next, w)"
      by (rule process_pr_skip)
    with Cons.IH show ?case by (simp add: after_calls_Nil)
  qed
  from never loop hasAllLabels_member [of label "labels h" lib prLabels]
  show ?thesis by blast
qed

theorem upper_case_label_never_matches_witness:
  "list_ex isUpper ''Ready'' \<and>
   \<not> contains test_lib [Some \<lparr>Label_Name = Some ''Ready''\<rparr>, Some \<lparr>Label_Name = Some ''ready''\<rparr>]
       ''Ready'' \<and>
   \<not> hasAllLabels test_lib [''Ready'']
       [Some \<lparr>Label_Name = Some ''Ready''\<rparr>, Some \<lparr>Label_Name = Some ''ready''\<rparr>] \<and>
   process_prs test_lib
       (test_handler [''Ready''] (test_client [] [(''feature-1'', 2)] [] []))
       (test_client [] [(''feature-1'', 2)] [] []) ''acme'' ''widgets''
       (map Some [mk_pr 1 ''feature-1'' [''Ready'']]) 0 = ([], Returned None, 0)"
proof -
  have tables: "\<forall>s. \<forall>c\<in>set (strings_Map_ToLower test_lib s). \<not> isUpper c"
    by (simp add: test_lib_def lowerByte_not_upper)
  have upper: "list_ex isUpper ''Ready''"
    by (simp add: isUpper_def)
  show ?thesis
    using upper
      upper_case_label_never_matches [OF tables upper,
        of "[Some \<lparr>Label_Name = Some ''Ready''\<rparr>, Some \<lparr>Label_Name = Some ''ready''\<rparr>]"
           "test_handler [''Ready''] (test_client [] [(''feature-1'', 2)] [] [])"
           "test_client [] [(''feature-1'', 2)] [] []" "''acme''" "''widgets''"
           "[mk_pr 1 ''feature-1'' [''Ready'']]" 0]
    by (simp add: test_handler_def)
qed

text \<open>
  C6.  The label filter comes before the comparison.  A pull request that lacks a
  configured label (\<open>contains\<close> does not find it among the pull request's labels)
  gets no comparison, no update and no comment: its turn issues no call and leaves the
  world as it was, and the loop goes on with the pull requests after it.
\<close>

theorem missing_label_skipped:
  assumes "label \<in> set (labels h)"
    and "\<not> contains lib (PR_Labels p) label"
  shows "process_pr lib h client repoOwner repoName (Some p) w = ([], Next, w) \<and>
         process_prs lib h client repoOwner repoName (Some p # pullRequests) w =
           process_prs lib h client repoOwner repoName pullRequests w"
proof -
  from assms have "\<not> hasAllLabels lib (labels h) (PR_Labels p)"
    by (rule hasAllLabels_member)
  then have "process_pr lib h client repoOwner repoName (Some p) w = ([], Next, w)"
    by (rule process_pr_skip)
  then show ?thesis by (simp add: after_calls_Nil)
qed

theorem missing_label_skipped_witness:
  "\<not> contains test_lib [Some \<lparr>Label_Name = Some ''wip''\<rparr>] ''ready'' \<and>
   process_prs test_lib
     (test_handler [''ready''] (test_client [] [(''feature-3'', 5), (''feature-4'', 0)] [] []))
     (test_client [] [(''feature-3'', 5), (''feature-4'', 0)] [] []) ''acme'' ''widgets''
     [Some (mk_pr 3 ''feature-3'' [''wip'']), Some (mk_pr 4 ''feature-4'' [''Ready''])] 0 =
   ([CompareCall ''acme'' ''widgets'' ''main'' ''feature-4''], Returned None, 1)"
proof -
  let ?client = "test_client [] [(''feature-3'', 5), (''feature-4'', 0)] [] []"
  have configured: "''ready'' \<in> set (labels (test_handler [''ready''] ?client))"
    by (simp add: test_handler_def)
  have missing: "\<not> contains test_lib (PR_Labels (mk_pr 3 ''feature-3'' [''wip''])) ''ready''"
    by (simp add: mk_pr_def lowering getters)
  show ?thesis
    using missing
      missing_label_skipped [OF configured missing,
        where pullRequests = "[Some (mk_pr 4 ''feature-4'' [''Ready''])]"
          and client = ?client and repoOwner = "''acme''" and repoName = "''widgets''" and w = 0]
    by (simp add: runs lowering getters)
qed

subsection \<open>Claims about one pull request in the loop\<close>

text \<open>
  In the theorems of this section the loop has arrived at the pull request \<open>p\<close>, with
  \<open>pullRequests\<close> still to come (\<open>Handle_reaches\<close> says how \<open>Handle\<close> gets
  there).  The label filter lets \<open>p\<close> through when no label is configured or
  \<open>hasAllLabels\<close> holds; the comparison is made on the base and the head ref of \<open>p\<close>
  in the world \<open>w\<close>, and answers \<open>commitComparison\<close>.
\<close>

text \<open>
  C4.  A pull request is updated iff the comparison says it is behind by at least one
  commit: the turn issues an update call iff \<open>1 \<le> GetBehindBy commitComparison\<close>.
  With \<open>behindBy\<close> 0 (or below) the comparison is the only call of the turn, so there
  is no update and no comment, and the loop goes on with the next pull request.
\<close>

theorem up_to_date_no_update:
  assumes "labels h = [] \<or> hasAllLabels lib (labels h) (PR_Labels p)"
    and "Repositories_CompareCommits client repoOwner repoName
           (Branch_GetRef (PR_Base p)) (Branch_GetRef (PR_Head p)) w =
           ((commitComparison, cerr), w1)"
  shows "(list_ex is_UpdateCall (fst (process_pr lib h client repoOwner repoName (Some p) w))
            \<longleftrightarrow> 1 \<le> GetBehindBy commitComparison) \<and>
         (GetBehindBy commitComparison < 1 \<longrightarrow>
            process_pr lib h client repoOwner repoName (Some p) w =
              ([CompareCall repoOwner repoName (Branch_GetRef (PR_Base p))
                  (Branch_GetRef (PR_Head p))], Next, w1) \<and>
            process_prs lib h client repoOwner repoName (Some p # pullRequests) w =
              after_calls [CompareCall repoOwner repoName (Branch_GetRef (PR_Base p))
                             (Branch_GetRef (PR_Head p))]
                (process_prs lib h client repoOwner repoName pullRequests w1))"
proof (cases "1 \<le> GetBehindBy commitComparison")
  case True
  with assms show ?thesis
    by (auto simp: process_pr_def Let_def PR_GetHead_def PR_GetBase_def
        split: prod.splits option.splits)
next
  case False
  then have "GetBehindBy commitComparison < 1" by simp
  from process_pr_up_to_date [OF assms this] False show ?thesis by simp
qed

theorem up_to_date_no_update_witness:
  "GetBehindBy (Some \<lparr>AheadBy = Some 1, BehindBy = Some 0\<rparr>) < 1 \<and>
   process_prs test_lib
     (test_handler [] (test_client [] [(''feature-1'', 0), (''feature-2'', 3)] [] []))
     (test_client [] [(''feature-1'', 0), (''feature-2'', 3)] [] []) ''acme'' ''widgets''
     [Some (mk_pr 1 ''feature-1'' []), Some (mk_pr 2 ''feature-2'' [])] 0 =
   ([CompareCall ''acme'' ''widgets'' ''main'' ''feature-1'',
     CompareCall ''acme'' ''widgets'' ''main'' ''feature-2'',
     UpdateCall ''acme'' ''widgets'' 2], Returned None, 3)"
proof -
  let ?client = "test_client [] [(''feature-1'', 0), (''feature-2'', 3)] [] []"
  let ?p = "mk_pr 1 ''feature-1'' []"
  have gate: "labels (test_handler [] ?client) = [] \<or>
      hasAllLabels test_lib (labels (test_handler [] ?client)) (PR_Labels ?p)"
    by (simp add: test_handler_def)
  have cmp: "Repositories_CompareCommits ?client ''acme'' ''widgets''
      (Branch_GetRef (PR_Base ?p)) (Branch_GetRef (PR_Head ?p)) 0 =
      ((Some \<lparr>AheadBy = Some 1, BehindBy = Some 0\<rparr>, None), 1)"
    by (simp add: runs getters)
  show ?thesis
    using up_to_date_no_update [OF gate cmp, where pullRequests = "[Some (mk_pr 2 ''feature-2'' [])]"]
    by (simp add: runs getters)
qed

text \<open>
  C9.  The claim: a pull request that is behind by at least one commit and has every
  configured label gets exactly one update call.  In the run below the one configured
  label, \<open>Ready\<close>, is on pull request 2 letter for letter, and the pull request is
  behind by 3.  \<open>Handle\<close> issues the listing call and nothing else: no comparison
  and no update.  This is the defect of C3 again: \<open>contains\<close> compares the
  lower-cased label of the pull request with the configured label as written.
\<close>

theorem labelled_and_behind_not_updated:
  "Handle test_lib
     (test_handler [''Ready''] (test_client
        [Some (mk_pr 2 ''feature-2'' [''Ready''])] [(''feature-2'', 3)] [] []))
     ''push to main'' 0 =
   ([ListCall ''acme'' ''widgets'' ''open''], Returned None, 1)"
  by (simp add: runs lowering getters)

text \<open>
  What the code does guarantee is the same statement with the label filter as
  \<open>hasAllLabels\<close> decides it.  A pull request that the filter lets through and that
  is behind by at least one commit gets exactly one update call in its turn, for its
  own number, whatever the update answers.  When the update succeeds, the comparison
  and the update are the only calls of the turn, so no comment is posted, and the loop
  goes on.
\<close>

lemma behind_updated_once:
  assumes "labels h = [] \<or> hasAllLabels lib (labels h) (PR_Labels p)"
    and "Repositories_CompareCommits client repoOwner repoName
           (Branch_GetRef (PR_Base p)) (Branch_GetRef (PR_Head p)) w =
           ((commitComparison, cerr), w1)"
    and "1 \<le> GetBehindBy commitComparison"
    and "PullRequests_UpdateBranch client repoOwner repoName (PR_GetNumber (Some p)) w1 =
           ((updateResponse, uerr), w2)"
  shows "filter is_UpdateCall (fst (process_pr lib h client repoOwner repoName (Some p) w)) =
           [UpdateCall repoOwner repoName (PR_GetNumber (Some p))] \<and>
         (uerr = None \<longrightarrow>
            process_pr lib h client repoOwner repoName (Some p) w =
              ([CompareCall repoOwner repoName (Branch_GetRef (PR_Base p))
                  (Branch_GetRef (PR_Head p)),
                UpdateCall repoOwner repoName (PR_GetNumber (Some p))], Next, w2) \<and>
            process_prs lib h client repoOwner repoName (Some p # pullRequests) w =
              after_calls [CompareCall repoOwner repoName (Branch_GetRef (PR_Base p))
                             (Branch_GetRef (PR_Head p)),
                           UpdateCall repoOwner repoName (PR_GetNumber (Some p))]
                (process_prs lib h client repoOwner repoName pullRequests w2))"
proof (cases uerr)
  case None
  from process_pr_updated [OF assms(1-3) assms(4) [unfolded None]] None
  show ?thesis by simp
next
  case (Some err)
  obtain err' w3 where c1: "Issues_CreateComment client repoOwner repoName
      (PR_GetNumber (Some p)) (preamble h @ ''\<newline>\<newline>'' @ GetMessage updateResponse) w2 =
      (err', w3)"
    by (cases "Issues_CreateComment client repoOwner repoName (PR_GetNumber (Some p))
          (preamble h @ ''\<newline>\<newline>'' @ GetMessage updateResponse) w2") auto
  obtain err'' w4 where c2: "Issues_CreateComment client repoOwner repoName
      (PR_GetNumber (Some p)) (''Failed to update pull request. Error: '' @ Error_msg err) w2 =
      (err'', w4)"
    by (cases "Issues_CreateComment client repoOwner repoName (PR_GetNumber (Some p))
          (''Failed to update pull request. Error: '' @ Error_msg err) w2") auto
  show ?thesis
  proof (cases "Error_msg err = ''job scheduled on GitHub side; try again later''")
    case True
    from process_pr_scheduled [OF assms(1-3) assms(4) [unfolded Some] True c1] Some
    show ?thesis by simp
  next
    case False
    from process_pr_failed [OF assms(1-3) assms(4) [unfolded Some] False c2] Some
    show ?thesis by simp
  qed
qed

lemma behind_updated_once_example:
  "1 \<le> GetBehindBy (Some \<lparr>AheadBy = Some 1, BehindBy = Some 3\<rparr>) \<and>
   filter is_UpdateCall (fst (process_pr test_lib
     (test_handler [''ready''] (test_client [] [(''feature-2'', 3)] [] []))
     (test_client [] [(''feature-2'', 3)] [] []) ''acme'' ''widgets''
     (Some (mk_pr 2 ''feature-2'' [''Ready'', ''Approved'']))  0)) =
     [UpdateCall ''acme'' ''widgets'' 2] \<and>
   process_prs test_lib
     (test_handler [''ready''] (test_client [] [(''feature-2'', 3)] [] []))
     (test_client [] [(''feature-2'', 3)] [] []) ''acme'' ''widgets''
     [Some (mk_pr 2 ''feature-2'' [''Ready'', ''Approved''])] 0 =
   ([CompareCall ''acme'' ''widgets'' ''main'' ''feature-2'',
     UpdateCall ''acme'' ''widgets'' 2], Returned None, 2)"
proof -
  let ?client = "test_client [] [(''feature-2'', 3)] [] []"
  let ?p = "mk_pr 2 ''feature-2'' [''Ready'', ''Approved'']"
  have gate: "labels (test_handler [''ready''] ?client) = [] \<or>
      hasAllLabels test_lib (labels (test_handler [''ready''] ?client)) (PR_Labels ?p)"
    by (simp add: runs lowering getters)
  have cmp: "Repositories_CompareCommits ?client ''acme'' ''widgets''
      (Branch_GetRef (PR_Base ?p)) (Branch_GetRef (PR_Head ?p)) 0 =
      ((Some \<lparr>AheadBy = Some 1, BehindBy = Some 3\<rparr>, None), 1)"
    by (simp add: runs getters)
  have behind: "1 \<le> GetBehindBy (Some \<lparr>AheadBy = Some 1, BehindBy = Some 3\<rparr>)"
    by (simp add: getters)
  have upd: "PullRequests_UpdateBranch ?client ''acme'' ''widgets'' (PR_GetNumber (Some ?p)) 1 =
      ((accepted, None), 2)"
    by (simp add: runs getters)
  show ?thesis
    using behind behind_updated_once [OF gate cmp behind upd, where pullRequests = "[]"]
    by (simp add: runs getters)
qed

subsection \<open>Claims about a failing update\<close>

text \<open>
  C8.  When the update fails with the message
  \<open>job scheduled on GitHub side; try again later\<close> and the comment that reports it
  cannot be posted, the loop stops there: \<open>Handle\<close> returns the error of the comment
  call, and the pull requests after \<open>p\<close> are not looked at (the result does not
  depend on \<open>pullRequests\<close>, and no call follows the comment).
\<close>

theorem scheduled_comment_failure_fatal:
  assumes "labels h = [] \<or> hasAllLabels lib (labels h) (PR_Labels p)"
    and "Repositories_CompareCommits client repoOwner repoName
           (Branch_GetRef (PR_Base p)) (Branch_GetRef (PR_Head p)) w =
           ((commitComparison, cerr), w1)"
    and "1 \<le> GetBehindBy commitComparison"
    and "PullRequests_UpdateBranch client repoOwner repoName (PR_GetNumber (Some p)) w1 =
           ((updateResponse, Some err), w2)"
    and "Error_msg err = ''job scheduled on GitHub side; try again later''"
    and "Issues_CreateComment client repoOwner repoName (PR_GetNumber (Some p))
           (preamble h @ ''\<newline>\<newline>'' @ GetMessage updateResponse) w2 = (Some err', w3)"
  shows "process_prs lib h client repoOwner repoName (Some p # pullRequests) w =
           ([CompareCall repoOwner repoName (Branch_GetRef (PR_Base p))
               (Branch_GetRef (PR_Head p)),
             UpdateCall repoOwner repoName (PR_GetNumber (Some p)),
             CommentCall repoOwner repoName (PR_GetNumber (Some p))
               (preamble h @ ''\<newline>\<newline>'' @ GetMessage updateResponse)],
            Returned (Some err'), w3)"
  using process_pr_scheduled [OF assms] by simp

theorem scheduled_comment_failure_fatal_witness:
  "Error_msg scheduled = ''job scheduled on GitHub side; try again later'' \<and>
   process_prs test_lib
     (test_handler [] (test_client [] [(''feature-2'', 3), (''feature-3'', 1)]
        [(2, None, scheduled)] [(2, Error ''403 Forbidden'')]))
     (test_client [] [(''feature-2'', 3), (''feature-3'', 1)]
        [(2, None, scheduled)] [(2, Error ''403 Forbidden'')]) ''acme'' ''widgets''
     [Some (mk_pr 2 ''feature-2'' []), Some (mk_pr 3 ''feature-3'' [])] 0 =
   ([CompareCall ''acme'' ''widgets'' ''main'' ''feature-2'',
     UpdateCall ''acme'' ''widgets'' 2,
     CommentCall ''acme'' ''widgets'' 2
       ''Auto-update:\<newline>\<newline>''],
    Returned (Some (Error ''403 Forbidden'')), 3)"
proof -
  let ?client = "test_client [] [(''feature-2'', 3), (''feature-3'', 1)]
        [(2, None, scheduled)] [(2, Error ''403 Forbidden'')]"
  let ?p = "mk_pr 2 ''feature-2'' []"
  have gate: "labels (test_handler [] ?client) = [] \<or>
      hasAllLabels test_lib (labels (test_handler [] ?client)) (PR_Labels ?p)"
    by (simp add: test_handler_def)
  have cmp: "Repositories_CompareCommits ?client ''acme'' ''widgets''
      (Branch_GetRef (PR_Base ?p)) (Branch_GetRef (PR_Head ?p)) 0 =
      ((Some \<lparr>AheadBy = Some 1, BehindBy = Some 3\<rparr>, None), 1)"
    by (simp add: runs getters)
  have behind: "1 \<le> GetBehindBy (Some \<lparr>AheadBy = Some 1, BehindBy = Some 3\<rparr>)"
    by (simp add: getters)
  have upd: "PullRequests_UpdateBranch ?client ''acme'' ''widgets'' (PR_GetNumber (Some ?p)) 1 =
      ((None, Some scheduled), 2)"
    by (simp add: test_client_def mk_pr_def getters)
  have sentinel: "Error_msg scheduled = ''job scheduled on GitHub side; try again later''"
    by (simp add: scheduled_def)
  have com: "Issues_CreateComment ?client ''acme'' ''widgets'' (PR_GetNumber (Some ?p))
      (preamble (test_handler [] ?client) @ ''\<newline>\<newline>'' @ GetMessage None) 2 =
      (Some (Error ''403 Forbidden''), 3)"
    by (simp add: test_client_def mk_pr_def getters)
  show ?thesis
    using sentinel
      scheduled_comment_failure_fatal [OF gate cmp behind upd sentinel com,
        where pullRequests = "[Some (mk_pr 3 ''feature-3'' [])]"]
    by (simp add: test_handler_def mk_pr_def accepted_def getters)
qed




text \<open>
  C1.  The claim: on any other update error the handler posts a comment with the error
  text, then returns the update error (or the comment's error) and leaves the remaining
  pull requests alone.  In the run below the update of pull request 2 fails with a
  merge conflict and the comment is posted; \<open>Handle\<close> goes on to compare and update
  pull request 3, and returns \<open>nil\<close>.
\<close>

theorem update_failure_counterexample:
  "Handle test_lib
     (test_handler [] (test_client
        [Some (mk_pr 2 ''feature-2'' []), Some (mk_pr 3 ''feature-3'' [])]
        [(''feature-2'', 3), (''feature-3'', 1)]
        [(2, None, Error ''merge conflict between base and head'')] []))
     ''push to main'' 0 =
   ([ListCall ''acme'' ''widgets'' ''open'',
     CompareCall ''acme'' ''widgets'' ''main'' ''feature-2'',
     UpdateCall ''acme'' ''widgets'' 2,
     CommentCall ''acme'' ''widgets'' 2
       ''Failed to update pull request. Error: merge conflict between base and head'',
     CompareCall ''acme'' ''widgets'' ''main'' ''feature-3'',
     UpdateCall ''acme'' ''widgets'' 3],
    Returned None, 6)"
  by (simp add: runs getters)

text \<open>
  C1 as amended.  On an update error other than the scheduled one, the turn posts one
  comment whose body is \<open>Failed to update pull request. Error: \<close> followed by the
  error text.  When the comment call fails, \<open>Handle\<close> returns the comment's error and
  the remaining pull requests are not processed.  When it succeeds, the loop goes on
  with the next pull request; the update error is not returned.
\<close>

theorem update_failure_commented:
  assumes "labels h = [] \<or> hasAllLabels lib (labels h) (PR_Labels p)"
    and "Repositories_CompareCommits client repoOwner repoName
           (Branch_GetRef (PR_Base p)) (Branch_GetRef (PR_Head p)) w =
           ((commitComparison, cerr), w1)"
    and "1 \<le> GetBehindBy commitComparison"
    and "PullRequests_UpdateBranch client repoOwner repoName (PR_GetNumber (Some p)) w1 =
           ((updateResponse, Some err), w2)"
    and "Error_msg err \<noteq> ''job scheduled on GitHub side; try again later''"
    and "Issues_CreateComment client repoOwner repoName (PR_GetNumber (Some p))
           (''Failed to update pull request. Error: '' @ Error_msg err) w2 = (err', w3)"
  shows "filter is_CommentCall (fst (process_pr lib h client repoOwner repoName (Some p) w)) =
           [CommentCall repoOwner repoName (PR_GetNumber (Some p))
              (''Failed to update pull request. Error: '' @ Error_msg err)] \<and>
         process_prs lib h client repoOwner repoName (Some p # pullRequests) w =
           (case err' of
              Some e \<Rightarrow>
                ([CompareCall repoOwner repoName (Branch_GetRef (PR_Base p))
                    (Branch_GetRef (PR_Head p)),
                  UpdateCall repoOwner repoName (PR_GetNumber (Some p)),
                  CommentCall repoOwner repoName (PR_GetNumber (Some p))
                    (''Failed to update pull request. Error: '' @ Error_msg err)],
                 Returned (Some e), w3)
            | None \<Rightarrow>
                after_calls
                  [CompareCall repoOwner repoName (Branch_GetRef (PR_Base p))
                     (Branch_GetRef (PR_Head p)),
                   UpdateCall repoOwner repoName (PR_GetNumber (Some p)),
                   CommentCall repoOwner repoName (PR_GetNumber (Some p))
                     (''Failed to update pull request. Error: '' @ Error_msg err)]
                  (process_prs lib h client repoOwner repoName pullRequests w3))"
  using process_pr_failed [OF assms] by (simp split: option.splits)

theorem update_failure_commented_witness:
  "Error_msg (Error ''merge conflict between base and head'') \<noteq>
     ''job scheduled on GitHub side; try again later'' \<and>
   process_prs test_lib
     (test_handler [] (test_client [] [(''feature-2'', 3), (''feature-3'', 1)]
        [(2, None, Error ''merge conflict between base and head'')]
        [(2, Error ''403 Forbidden'')]))
     (test_client [] [(''feature-2'', 3), (''feature-3'', 1)]
        [(2, None, Error ''merge conflict between base and head'')]
        [(2, Error ''403 Forbidden'')]) ''acme'' ''widgets''
     [Some (mk_pr 2 ''feature-2'' []), Some (mk_pr 3 ''feature-3'' [])] 0 =
   ([CompareCall ''acme'' ''widgets'' ''main'' ''feature-2'',
     UpdateCall ''acme'' ''widgets'' 2,
     CommentCall ''acme'' ''widgets'' 2
       ''Failed to update pull request. Error: merge conflict between base and head''],
    Returned (Some (Error ''403 Forbidden'')), 3)"
proof -
  let ?client = "test_client [] [(''feature-2'', 3), (''feature-3'', 1)]
        [(2, None, Error ''merge conflict between base and head'')]
        [(2, Error ''403 Forbidden'')]"
  let ?p = "mk_pr 2 ''feature-2'' []"
  have gate: "labels (test_handler [] ?client) = [] \<or>
      hasAllLabels test_lib (labels (test_handler [] ?client)) (PR_Labels ?p)"
    by (simp add: test_handler_def)
  have cmp: "Repositories_CompareCommits ?client ''acme'' ''widgets''
      (Branch_GetRef (PR_Base ?p)) (Branch_GetRef (PR_Head ?p)) 0 =
      ((Some \<lparr>AheadBy = Some 1, BehindBy = Some 3\<rparr>, None), 1)"
    by (simp add: runs getters)
  have behind: "1 \<le> GetBehindBy (Some \<lparr>AheadBy = Some 1, BehindBy = Some 3\<rparr>)"
    by (simp add: getters)
  have upd: "PullRequests_UpdateBranch ?client ''acme'' ''widgets'' (PR_GetNumber (Some ?p)) 1 =
      ((None, Some (Error ''merge conflict between base and head'')), 2)"
    by (simp add: test_client_def mk_pr_def getters)
  have other: "Error_msg (Error ''merge conflict between base and head'') \<noteq>
      ''job scheduled on GitHub side; try again later''"
    by simp
  have com: "Issues_CreateComment ?client ''acme'' ''widgets'' (PR_GetNumber (Some ?p))
      (''Failed to update pull request. Error: '' @
         Error_msg (Error ''merge conflict between base and head'')) 2 =
      (Some (Error ''403 Forbidden''), 3)"
    by (simp add: test_client_def mk_pr_def getters)
  show ?thesis
    using other
      update_failure_commented [OF gate cmp behind upd other com,
        where pullRequests = "[Some (mk_pr 3 ''feature-3'' [])]"]
    by (simp add: mk_pr_def getters)
qed

subsection \<open>Claims about a failing comparison and about other branches\<close>

text \<open>
  C2.  The claim: a comparison that fails is fatal, its error is returned and the
  remaining pull requests are left alone.  In the run below the comparison for pull
  request 1 fails; \<open>Handle\<close> goes on to compare and update pull request 2, and returns
  \<open>nil\<close>.
\<close>

theorem compare_failure_counterexample:
  "Handle test_lib
     (test_handler [] (test_client
        [Some (mk_pr 1 ''feature-1'' []), Some (mk_pr 2 ''feature-2'' [])]
        [(''feature-2'', 3)] [] []))
     ''push to main'' 0 =
   ([ListCall ''acme'' ''widgets'' ''open'',
     CompareCall ''acme'' ''widgets'' ''main'' ''feature-1'',
     CompareCall ''acme'' ''widgets'' ''main'' ''feature-2'',
     UpdateCall ''acme'' ''widgets'' 2],
    Returned None, 4)"
  by (simp add: runs getters)

text \<open>
  C2 as amended.  The error of the comparison call is discarded.  When the call fails
  and returns no comparison (\<open>nil\<close>, which is what go-github returns with an error),
  \<open>GetBehindBy\<close> reads 0: the pull request gets no update and no comment, and the
  loop goes on with the next pull request.
\<close>

theorem compare_failure_ignored:
  assumes "labels h = [] \<or> hasAllLabels lib (labels h) (PR_Labels p)"
    and "Repositories_CompareCommits client repoOwner repoName
           (Branch_GetRef (PR_Base p)) (Branch_GetRef (PR_Head p)) w =
           ((None, Some err), w1)"
  shows "process_pr lib h client repoOwner repoName (Some p) w =
           ([CompareCall repoOwner repoName (Branch_GetRef (PR_Base p))
               (Branch_GetRef (PR_Head p))], Next, w1) \<and>
         process_prs lib h client repoOwner repoName (Some p # pullRequests) w =
           after_calls [CompareCall repoOwner repoName (Branch_GetRef (PR_Base p))
                          (Branch_GetRef (PR_Head p))]
             (process_prs lib h client repoOwner repoName pullRequests w1)"
proof -
  have "GetBehindBy None < 1" by (simp add: GetBehindBy_def)
  from process_pr_up_to_date [OF assms this] show ?thesis by simp
qed

theorem compare_failure_ignored_witness:
  "process_prs test_lib
     (test_handler [] (test_client [] [(''feature-2'', 3)] [] []))
     (test_client [] [(''feature-2'', 3)] [] []) ''acme'' ''widgets''
     [Some (mk_pr 1 ''feature-1'' []), Some (mk_pr 2 ''feature-2'' [])] 0 =
   ([CompareCall ''acme'' ''widgets'' ''main'' ''feature-1'',
     CompareCall ''acme'' ''widgets'' ''main'' ''feature-2'',
     UpdateCall ''acme'' ''widgets'' 2],
    Returned None, 3)"
proof -
  let ?client = "test_client [] [(''feature-2'', 3)] [] []"
  let ?p = "mk_pr 1 ''feature-1'' []"
  have gate: "labels (test_handler [] ?client) = [] \<or>
      hasAllLabels test_lib (labels (test_handler [] ?client)) (PR_Labels ?p)"
    by (simp add: test_handler_def)
  have cmp: "Repositories_CompareCommits ?client ''acme'' ''widgets''
      (Branch_GetRef (PR_Base ?p)) (Branch_GetRef (PR_Head ?p)) 0 =
      ((None, Some (Error ''404 Not Found'')), 1)"
    by (simp add: runs getters)
  show ?thesis
    using compare_failure_ignored [OF gate cmp,
        where pullRequests = "[Some (mk_pr 2 ''feature-2'' [])]"]
    by (simp add: runs getters)
qed

text \<open>
  C5.  The claim: a push to any ref other than \<open>refs/heads/\<close> followed by the default
  branch returns \<open>nil\<close> at once.  The installation client is created before the ref
  is looked at, and an error there is returned first: the run below is a push to
  \<open>refs/heads/feature-branch\<close> with a client creator that fails.
\<close>

theorem other_ref_counterexample:
  "Handle test_lib broken_handler ''push to feature-branch'' 0 =
     ([], Returned (Some (Error ''could not parse private key'')), 0)"
  by (simp add: runs getters)

text \<open>
  C5 as amended.  For a decoded push event whose ref is not \<open>refs/heads/\<close> followed by
  the repository's default branch, \<open>Handle\<close> issues no client call at all (no
  listing, comparison, update or comment) and leaves the world as it was; it returns
  \<open>nil\<close> once the installation client has been created, and the client creator's
  error otherwise.
\<close>

theorem other_ref_ignored:
  assumes "json_Unmarshal lib payload = Inr pushEvent"
    and "Push_GetRef pushEvent \<noteq>
           ''refs/heads/'' @ Repo_GetDefaultBranch (Push_GetRepo pushEvent)"
  shows "Handle lib h payload w =
           ([], Returned (case NewInstallationClient h (GetInstallationIDFromEvent pushEvent) of
                            Inl err \<Rightarrow> Some err
                          | Inr client \<Rightarrow> None), w)"
  using assms by (simp add: Handle_def Let_def split: sum.splits)

theorem other_ref_ignored_witness:
  "Push_GetRef (Some push_feature) \<noteq>
     ''refs/heads/'' @ Repo_GetDefaultBranch (Push_GetRepo (Some push_feature)) \<and>
   Handle test_lib
     (test_handler [] (test_client [Some (mk_pr 2 ''feature-2'' [])] [(''feature-2'', 3)] [] []))
     ''push to feature-branch'' 0 = ([], Returned None, 0)"
proof -
  have dec: "json_Unmarshal test_lib ''push to feature-branch'' = Inr (Some push_feature)"
    by (simp add: test_lib_def)
  have ref: "Push_GetRef (Some push_feature) \<noteq>
      ''refs/heads/'' @ Repo_GetDefaultBranch (Push_GetRepo (Some push_feature))"
    by (simp add: push_feature_def push_main_def getters)
  show ?thesis
    using ref
      other_ref_ignored [OF dec ref,
        of "test_handler [] (test_client [Some (mk_pr 2 ''feature-2'' [])]
              [(''feature-2'', 3)] [] [])" 0]
    by (simp add: test_handler_def)
qed

end
